theory Spec2Isabelle
  imports Main "HOL-Library.Word"
begin

section \<open>JavaScript strings\<close>

text \<open>
  A JavaScript string is a sequence of 16-bit code units; \<open>length\<close>, \<open>trim\<close>, a regular
  expression without the \<open>u\<close> flag and \<open>===\<close> all work on code units.  \<open>js_of\<close> embeds
  an ASCII literal.
\<close>

type_synonym code_unit = "16 word"
type_synonym jsstring = "code_unit list"

definition js_of :: "string \<Rightarrow> jsstring" where
  "js_of s = map of_char s"

text \<open>
  \<open>String.prototype.trim\<close> removes WhiteSpace and LineTerminator code points from both
  ends: TAB, LF, VT, FF, CR, SP, NBSP, U+1680, U+2000..U+200A, LS, PS, U+202F, U+205F,
  U+3000 and the byte order mark.
\<close>

definition isWhiteSpace :: "code_unit \<Rightarrow> bool" where
  "isWhiteSpace c =
     (c \<in> {0x09, 0x0A, 0x0B, 0x0C, 0x0D, 0x20, 0xA0, 0x1680,
           0x2028, 0x2029, 0x202F, 0x205F, 0x3000, 0xFEFF}
      \<or> (0x2000 \<le> c \<and> c \<le> 0x200A))"

definition trim :: "jsstring \<Rightarrow> jsstring" where
  "trim s = rev (dropWhile isWhiteSpace (rev (dropWhile isWhiteSpace s)))"

text \<open>The character class \<open>[a-zA-Z0-9-_]\<close> of App.tsx line 194 (its negation is matched).\<close>

definition isLowerAZ :: "code_unit \<Rightarrow> bool" where
  "isLowerAZ c = (0x61 \<le> c \<and> c \<le> 0x7A)"

definition isUpperAZ :: "code_unit \<Rightarrow> bool" where
  "isUpperAZ c = (0x41 \<le> c \<and> c \<le> 0x5A)"

definition isDigit09 :: "code_unit \<Rightarrow> bool" where
  "isDigit09 c = (0x30 \<le> c \<and> c \<le> 0x39)"

definition hyphen :: code_unit where
  "hyphen = 0x2D"

definition underscore :: code_unit where
  "underscore = 0x5F"

definition inClass :: "code_unit \<Rightarrow> bool" where
  "inClass c = (isLowerAZ c \<or> isUpperAZ c \<or> isDigit09 c \<or> c = hyphen \<or> c = underscore)"

text \<open>\<open>.replace(/[^a-zA-Z0-9-_]/g, '-')\<close>: every code unit outside the class becomes a hyphen.\<close>

definition replaceDisallowed :: "jsstring \<Rightarrow> jsstring" where
  "replaceDisallowed s = map (\<lambda>c. if inClass c then c else hyphen) s"

text \<open>
  \<open>String.prototype.toLowerCase\<close> on the strings this program gives it: it is called on
  the result of the replacement, whose code units are all in \<open>[a-zA-Z0-9-_]\<close>, and there
  the Unicode lower-case mapping moves A..Z to a..z and nothing else.
\<close>

definition toLowerCaseUnit :: "code_unit \<Rightarrow> code_unit" where
  "toLowerCaseUnit c = (if isUpperAZ c then c + 0x20 else c)"

definition toLowerCase :: "jsstring \<Rightarrow> jsstring" where
  "toLowerCase s = map toLowerCaseUnit s"

text \<open>App.tsx line 194: \<open>inputCloudId.trim().replace(/[^a-zA-Z0-9-_]/g, '-').toLowerCase()\<close>.\<close>

definition cleanId :: "jsstring \<Rightarrow> jsstring" where
  "cleanId inputCloudId = toLowerCase (replaceDisallowed (trim inputCloudId))"

text \<open>What the normalised identifier is made of: a..z, 0..9, hyphen, underscore.\<close>

definition isCleanUnit :: "code_unit \<Rightarrow> bool" where
  "isCleanUnit c = (isLowerAZ c \<or> isDigit09 c \<or> c = hyphen \<or> c = underscore)"

section \<open>JavaScript values and JSON.stringify\<close>

text \<open>
  The values a task collection is made of: what \<open>response.json()\<close> yields, and what the
  handlers build (App.tsx line 148 stores \<open>imageUrl: taskImage || undefined\<close>, so a local
  task can own a property whose value is \<open>undefined\<close>).  A number is an integer below
  \<open>10^21\<close> in magnitude (\<open>Date.now()\<close> stamps, ratings), which \<open>JSON.stringify\<close> prints in
  plain decimal.  An object is the list of its own enumerable properties in enumeration
  order.
\<close>

datatype jsval =
    JUndefined
  | JNull
  | JBool bool
  | JNum int
  | JStr jsstring
  | JArr "jsval list"
  | JObj "(jsstring \<times> jsval) list"

definition digitUnit :: "nat \<Rightarrow> code_unit" where
  "digitUnit d = of_nat (48 + d)"

fun decimal :: "nat \<Rightarrow> jsstring" where
  "decimal n = (if n < 10 then [digitUnit n] else decimal (n div 10) @ [digitUnit (n mod 10)])"

declare decimal.simps [simp del]

definition numberToString :: "int \<Rightarrow> jsstring" where
  "numberToString i = (if i < 0 then 0x2D # decimal (nat (- i)) else decimal (nat i))"

definition hexDigit :: "nat \<Rightarrow> code_unit" where
  "hexDigit d = (if d < 10 then of_nat (48 + d) else of_nat (87 + d))"

text \<open>UnicodeEscape: a backslash, \<open>u\<close> and four lower-case hexadecimal digits.\<close>

definition unicodeEscape :: "code_unit \<Rightarrow> jsstring" where
  "unicodeEscape c =
     [0x5C, 0x75, hexDigit (unat c div 4096), hexDigit (unat c div 256 mod 16),
      hexDigit (unat c div 16 mod 16), hexDigit (unat c mod 16)]"

definition isHighSurrogate :: "code_unit \<Rightarrow> bool" where
  "isHighSurrogate c = (0xD800 \<le> c \<and> c \<le> 0xDBFF)"

definition isLowSurrogate :: "code_unit \<Rightarrow> bool" where
  "isLowSurrogate c = (0xDC00 \<le> c \<and> c \<le> 0xDFFF)"

text \<open>
  QuoteJSONString on one code point of the Basic Multilingual Plane that is no
  surrogate: the short escapes for backspace, tab, line feed, form feed, carriage
  return, the quote and the backslash, a Unicode escape below U+0020, the code unit
  itself otherwise.
\<close>

definition quoteUnit :: "code_unit \<Rightarrow> jsstring" where
  "quoteUnit c =
     (if c = 0x08 then [0x5C, 0x62]
      else if c = 0x09 then [0x5C, 0x74]
      else if c = 0x0A then [0x5C, 0x6E]
      else if c = 0x0C then [0x5C, 0x66]
      else if c = 0x0D then [0x5C, 0x72]
      else if c = 0x22 then [0x5C, 0x22]
      else if c = 0x5C then [0x5C, 0x5C]
      else if c < 0x20 then unicodeEscape c
      else [c])"

text \<open>A surrogate pair is copied; a surrogate outside a pair is escaped.\<close>

fun quoteUnits :: "jsstring \<Rightarrow> jsstring" where
  "quoteUnits [] = []"
| "quoteUnits [c] =
     (if isHighSurrogate c \<or> isLowSurrogate c then unicodeEscape c else quoteUnit c)"
| "quoteUnits (c # d # cs) =
     (if isHighSurrogate c \<and> isLowSurrogate d then c # d # quoteUnits cs
      else if isHighSurrogate c \<or> isLowSurrogate c then unicodeEscape c @ quoteUnits (d # cs)
      else quoteUnit c @ quoteUnits (d # cs))"

definition QuoteJSONString :: "jsstring \<Rightarrow> jsstring" where
  "QuoteJSONString s = 0x22 # quoteUnits s @ [0x22]"

fun joinComma :: "jsstring list \<Rightarrow> jsstring" where
  "joinComma [] = []"
| "joinComma [x] = x"
| "joinComma (x # y # zs) = x @ 0x2C # joinComma (y # zs)"

text \<open>
  SerializeJSONProperty with no replacer and no indentation.  \<open>undefined\<close> has no
  serialisation (\<open>None\<close>): as an array element it is printed \<open>null\<close>, as the value of
  a property the property is left out.
\<close>

fun SerializeJSONProperty :: "jsval \<Rightarrow> jsstring option"
  and SerializeJSONElements :: "jsval list \<Rightarrow> jsstring list"
  and SerializeJSONMembers :: "(jsstring \<times> jsval) list \<Rightarrow> jsstring list"
where
  "SerializeJSONProperty JUndefined = None"
| "SerializeJSONProperty JNull = Some (js_of ''null'')"
| "SerializeJSONProperty (JBool b) = Some (if b then js_of ''true'' else js_of ''false'')"
| "SerializeJSONProperty (JNum i) = Some (numberToString i)"
| "SerializeJSONProperty (JStr s) = Some (QuoteJSONString s)"
| "SerializeJSONProperty (JArr xs) =
     Some (0x5B # joinComma (SerializeJSONElements xs) @ [0x5D])"
| "SerializeJSONProperty (JObj ps) =
     Some (0x7B # joinComma (SerializeJSONMembers ps) @ [0x7D])"
| "SerializeJSONElements [] = []"
| "SerializeJSONElements (x # xs) =
     (case SerializeJSONProperty x of
        None \<Rightarrow> js_of ''null''
      | Some t \<Rightarrow> t) # SerializeJSONElements xs"
| "SerializeJSONMembers [] = []"
| "SerializeJSONMembers (p # ps) =
     (case SerializeJSONProperty (snd p) of
        None \<Rightarrow> SerializeJSONMembers ps
      | Some t \<Rightarrow> (QuoteJSONString (fst p) @ 0x3A # t) # SerializeJSONMembers ps)"

definition JSON_stringify :: "jsval \<Rightarrow> jsstring option" where
  "JSON_stringify v = SerializeJSONProperty v"

section \<open>The storage service (src/unnamed/part_001)\<close>

text \<open>
  What the network does with one request.  \<open>fetch\<close> either rejects (no connectivity,
  DNS, time-out) or resolves to a response with a status; \<open>response.json()\<close> either
  rejects (the body is not JSON) or yields the parsed value.  \<open>response.ok\<close> holds for
  the statuses 200 to 299.
\<close>

datatype json_body = NoJson | Json jsval

datatype http_outcome = NetworkFailure | Response nat json_body

datatype request =
    GET jsstring
  | POST jsstring "jsstring option"

type_synonym network = "request \<Rightarrow> http_outcome"

datatype exn = TypeError | SyntaxError

definition response_ok :: "nat \<Rightarrow> bool" where
  "response_ok st = (200 \<le> st \<and> st \<le> 299)"

record SyncResult =
  success :: bool
  data :: "jsval list option"
  error :: "jsstring option"

definition NOT_FOUND :: jsstring where
  "NOT_FOUND = js_of ''NOT_FOUND''"

text \<open>The four messages of the service, with their Turkish letters as code units.\<close>

definition msgFetchFailed :: jsstring where
  "msgFetchFailed = js_of ''Veri '' @ [0xE7] @ js_of ''ekilemedi.''"

definition msgNoInternet :: jsstring where
  "msgNoInternet =
     [0x130] @ js_of ''nternet ba'' @ [0x11F] @ js_of ''lant'' @ [0x131] @ js_of ''s''
     @ [0x131] @ js_of '' yok.''"

definition msgSaveFailed :: jsstring where
  "msgSaveFailed =
     js_of ''Sunucuya kay'' @ [0x131] @ js_of ''t yap'' @ [0x131] @ js_of ''lamad''
     @ [0x131] @ js_of ''.''"

definition msgConnectionError :: jsstring where
  "msgConnectionError =
     js_of ''Ba'' @ [0x11F] @ js_of ''lant'' @ [0x131] @ js_of '' hatas'' @ [0x131] @ js_of ''.''"

text \<open>\<open>Array.isArray\<close>.\<close>

definition isArray :: "jsval \<Rightarrow> bool" where
  "isArray v = (case v of JArr xs \<Rightarrow> True | _ \<Rightarrow> False)"

text \<open>
  The \<open>try\<close> block of \<open>fetchCloudTasks\<close>, on the outcome of its request: \<open>Inl\<close> is an
  exception thrown inside the block.
\<close>

definition fetchTry :: "http_outcome \<Rightarrow> exn + SyncResult" where
  "fetchTry out =
     (case out of
        NetworkFailure \<Rightarrow> Inl TypeError
      | Response st body \<Rightarrow>
          if response_ok st then
            (case body of
               NoJson \<Rightarrow> Inl SyntaxError
             | Json result \<Rightarrow>
                 (case result of
                    JArr xs \<Rightarrow> Inr \<lparr>success = True, data = Some xs, error = None\<rparr>
                  | _ \<Rightarrow> Inr \<lparr>success = True, data = Some [], error = None\<rparr>))
          else if st = 404 then
            Inr \<lparr>success = True, data = Some [], error = Some NOT_FOUND\<rparr>
          else Inr \<lparr>success = False, data = None, error = Some msgFetchFailed\<rparr>)"

text \<open>
  \<open>fetchCloudTasks\<close>: the request \<open>GET {BASE_URL}/{blobId}/tasks?_t=...\<close>, the \<open>try\<close>
  block, and the \<open>catch\<close>.  The result is what the returned promise settles to:
  \<open>Inr\<close> fulfilled, \<open>Inl\<close> rejected.
\<close>

definition fetchCloudTasks :: "network \<Rightarrow> jsstring \<Rightarrow> exn + SyncResult" where
  "fetchCloudTasks net blobId =
     (case fetchTry (net (GET blobId)) of
        Inl e \<Rightarrow> Inr \<lparr>success = False, data = None, error = Some msgNoInternet\<rparr>
      | Inr r \<Rightarrow> Inr r)"

definition updateTry :: "http_outcome \<Rightarrow> exn + SyncResult" where
  "updateTry out =
     (case out of
        NetworkFailure \<Rightarrow> Inl TypeError
      | Response st body \<Rightarrow>
          if response_ok st then Inr \<lparr>success = True, data = None, error = None\<rparr>
          else Inr \<lparr>success = False, data = None, error = Some msgSaveFailed\<rparr>)"

text \<open>What \<open>updateCloudTasks\<close> returns once its request has the outcome \<open>out\<close>.\<close>

definition updateSettled :: "http_outcome \<Rightarrow> exn + SyncResult" where
  "updateSettled out =
     (case updateTry out of
        Inl e \<Rightarrow> Inr \<lparr>success = False, data = None, error = Some msgConnectionError\<rparr>
      | Inr r \<Rightarrow> Inr r)"

text \<open>\<open>updateCloudTasks\<close>: \<open>POST {BASE_URL}/{blobId}/tasks\<close> with the whole collection.\<close>

definition updateCloudTasks :: "network \<Rightarrow> jsstring \<Rightarrow> jsval list \<Rightarrow> exn + SyncResult" where
  "updateCloudTasks net blobId tasks =
     updateSettled (net (POST blobId (JSON_stringify (JArr tasks))))"

section \<open>The state of the App component (src/App.tsx)\<close>

datatype sync_status = Offline | Syncing | Online | Error

text \<open>
  The React state the synchronisation handlers read and write (lines 14 and 27 to 31),
  and the browser's \<open>localStorage\<close>.
\<close>

record app_state =
  tasks :: "jsval list"
  cloudId :: "jsstring option"
  inputCloudId :: jsstring
  syncStatus :: sync_status
  lastSyncTime :: nat
  isSyncModalOpen :: bool
  localStorage :: "string \<rightharpoonup> jsstring"

text \<open>The dialogs of the handlers, by the line that opens them.\<close>

datatype alert_msg =
    AlertMinLength
  | AlertRoomCreated
  | AlertSetupFailed
  | AlertServerError "jsstring option"

datatype confirm_msg = ConfirmLoadRemote | ConfirmDisconnect

text \<open>What a handler does to the world outside the state, in order.\<close>

datatype effect =
    CallFetch jsstring
  | CallUpdate jsstring "jsval list"
  | Alert alert_msg
  | Confirm confirm_msg

text \<open>
  The world a handler runs in: the network, the user's answer to a \<open>confirm\<close> dialog,
  and the clock read by \<open>Date.now()\<close>.
\<close>

record env =
  network :: network
  confirm :: "confirm_msg \<Rightarrow> bool"
  now :: nat

subsection \<open>The poll (lines 65 to 82)\<close>

text \<open>
  The body of the interval callback after its \<open>await\<close>.  \<open>tasks0\<close> and \<open>status0\<close> are the
  \<open>tasks\<close> and \<open>syncStatus\<close> the callback closed over; the setters act on the state \<open>s\<close>
  at the time the fetch resolves.
\<close>

definition pollThen :: "jsval list \<Rightarrow> sync_status \<Rightarrow> nat \<Rightarrow> SyncResult \<Rightarrow> app_state \<Rightarrow> app_state" where
  "pollThen tasks0 status0 t res s =
     (case data res of
        None \<Rightarrow> s
      | Some d \<Rightarrow>
          if success res \<and> 0 < length d then
            (let s1 = (if JSON_stringify (JArr d) \<noteq> JSON_stringify (JArr tasks0)
                       then s\<lparr>tasks := d, lastSyncTime := t\<rparr> else s)
             in if status0 \<noteq> Online then s1\<lparr>syncStatus := Online\<rparr> else s1)
          else s)"

text \<open>
  One tick of the interval, with nothing else running between the fetch and its
  result.  No interval exists while \<open>cloudId\<close> is \<open>null\<close> (or empty).
\<close>

definition poll :: "env \<Rightarrow> app_state \<Rightarrow> app_state \<times> effect list" where
  "poll e s =
     (case cloudId s of
        None \<Rightarrow> (s, [])
      | Some cid \<Rightarrow>
          if cid = [] then (s, [])
          else
            (case fetchCloudTasks (network e) cid of
               Inl x \<Rightarrow> (s, [CallFetch cid])
             | Inr res \<Rightarrow> (pollThen (tasks s) (syncStatus s) (now e) res s, [CallFetch cid])))"

subsection \<open>updateTasksAndSync (lines 106 to 121)\<close>

text \<open>
  The synchronous part: the new state, and the push it starts (bucket and collection)
  when a bucket is active.
\<close>

definition updateTasksAndSync ::
  "app_state \<Rightarrow> jsval list \<Rightarrow> app_state \<times> (jsstring \<times> jsval list) option" where
  "updateTasksAndSync s newTasks =
     (let s1 = s\<lparr>tasks := newTasks\<rparr> in
      case cloudId s of
        None \<Rightarrow> (s1, None)
      | Some cid \<Rightarrow>
          if cid = [] then (s1, None)
          else (s1\<lparr>syncStatus := Syncing\<rparr>, Some (cid, newTasks)))"

text \<open>The \<open>then\<close> callback of the push (lines 112 to 119), at time \<open>t\<close>.\<close>

definition pushThen :: "nat \<Rightarrow> SyncResult \<Rightarrow> app_state \<Rightarrow> app_state" where
  "pushThen t res s =
     (if success res then s\<lparr>syncStatus := Online, lastSyncTime := t\<rparr>
      else s\<lparr>syncStatus := Error\<rparr>)"

text \<open>
  Local mutations interleaved with the completions of the pushes in flight.  A
  mutation computes the new collection from the current one and hands it to
  \<open>updateTasksAndSync\<close>; \<open>PushSettles i out t\<close> is the \<open>i\<close>-th push in flight meeting
  the outcome \<open>out\<close> at time \<open>t\<close>.
\<close>

datatype event =
    Mutation "jsval list \<Rightarrow> jsval list"
  | PushSettles nat http_outcome nat

type_synonym session = "app_state \<times> (jsstring \<times> jsval list) list"

definition step :: "session \<Rightarrow> event \<Rightarrow> session" where
  "step ss ev =
     (case ev of
        Mutation m \<Rightarrow>
          (case updateTasksAndSync (fst ss) (m (tasks (fst ss))) of
             (s', None) \<Rightarrow> (s', snd ss)
           | (s', Some push) \<Rightarrow> (s', snd ss @ [push]))
      | PushSettles i out t \<Rightarrow>
          if i < length (snd ss) then
            (case updateSettled out of
               Inl x \<Rightarrow> (fst ss, take i (snd ss) @ drop (Suc i) (snd ss))
             | Inr res \<Rightarrow> (pushThen t res (fst ss), take i (snd ss) @ drop (Suc i) (snd ss)))
          else ss)"

definition run :: "session \<Rightarrow> event list \<Rightarrow> session" where
  "run ss evs = foldl step ss evs"

text \<open>The mutations of a schedule, in order, applied to a collection.\<close>

fun applyMutations :: "event list \<Rightarrow> jsval list \<Rightarrow> jsval list" where
  "applyMutations [] ts = ts"
| "applyMutations (Mutation m # evs) ts = applyMutations evs (m ts)"
| "applyMutations (PushSettles i out t # evs) ts = applyMutations evs ts"

subsection \<open>handleConnectCloud (lines 190 to 233)\<close>

text \<open>The success flow, lines 224 to 228.\<close>

definition connectSuccess :: "jsstring \<Rightarrow> app_state \<Rightarrow> app_state" where
  "connectSuccess cid s =
     s\<lparr>cloudId := Some cid,
       localStorage := (localStorage s)(''hidro_cloud_id'' \<mapsto> cid),
       syncStatus := Online,
       isSyncModalOpen := False,
       inputCloudId := []\<rparr>"

text \<open>
  Lines 205 to 232, once the fetch has returned \<open>res\<close>; \<open>tasks0\<close> is the collection
  the handler closed over.
\<close>

definition connectAfterFetch ::
  "env \<Rightarrow> jsstring \<Rightarrow> jsval list \<Rightarrow> SyncResult \<Rightarrow> app_state \<Rightarrow> app_state \<times> effect list" where
  "connectAfterFetch e cid tasks0 res s =
     (if success res then
        (if error res = Some NOT_FOUND then
           (case updateCloudTasks (network e) cid tasks0 of
              Inl x \<Rightarrow> (s, [CallUpdate cid tasks0])
            | Inr initRes \<Rightarrow>
                if success initRes then
                  (connectSuccess cid s, [CallUpdate cid tasks0, Alert AlertRoomCreated])
                else
                  (s\<lparr>syncStatus := Error\<rparr>, [CallUpdate cid tasks0, Alert AlertSetupFailed]))
         else
           (case data res of
              None \<Rightarrow> (connectSuccess cid s, [])
            | Some d \<Rightarrow>
                if 0 < length d then
                  (if confirm e ConfirmLoadRemote
                   then (connectSuccess cid (s\<lparr>tasks := d\<rparr>), [Confirm ConfirmLoadRemote])
                   else (connectSuccess cid s, [Confirm ConfirmLoadRemote]))
                else (connectSuccess cid s, [])))
      else (s\<lparr>syncStatus := Error\<rparr>, [Alert (AlertServerError (error res))]))"

definition handleConnectCloud :: "env \<Rightarrow> app_state \<Rightarrow> app_state \<times> effect list" where
  "handleConnectCloud e s =
     (if inputCloudId s = [] then (s, [])
      else
        (let cid = cleanId (inputCloudId s) in
         if length cid < 3 then (s, [Alert AlertMinLength])
         else
           (let s1 = s\<lparr>syncStatus := Syncing\<rparr> in
            case fetchCloudTasks (network e) cid of
              Inl x \<Rightarrow> (s1, [CallFetch cid])
            | Inr res \<Rightarrow>
                (case connectAfterFetch e cid (tasks s) res s1 of
                   (s2, effs) \<Rightarrow> (s2, CallFetch cid # effs)))))"

subsection \<open>handleDisconnectCloud (lines 235 to 241)\<close>

definition handleDisconnectCloud :: "env \<Rightarrow> app_state \<Rightarrow> app_state \<times> effect list" where
  "handleDisconnectCloud e s =
     (if confirm e ConfirmDisconnect then
        (s\<lparr>cloudId := None,
           localStorage := (localStorage s)(''hidro_cloud_id'' := None),
           syncStatus := Offline\<rparr>,
         [Confirm ConfirmDisconnect])
      else (s, [Confirm ConfirmDisconnect]))"

section \<open>Concrete networks, environments and states\<close>

text \<open>A network that is unreachable.\<close>

definition netDown :: network where
  "netDown = (\<lambda>req. NetworkFailure)"

text \<open>A network that answers 200 with a body that is not JSON.\<close>

definition netGarbled :: network where
  "netGarbled = (\<lambda>req. Response 200 NoJson)"

text \<open>A network that answers reads and writes with fixed statuses and no JSON body.\<close>

definition netStatus :: "nat \<Rightarrow> nat \<Rightarrow> network" where
  "netStatus getStatus postStatus =
     (\<lambda>req. case req of
               GET b \<Rightarrow> Response getStatus NoJson
             | POST b body \<Rightarrow> Response postStatus NoJson)"

text \<open>A network whose buckets hold the JSON value \<open>v\<close> and accept every write.\<close>

definition netServing :: "jsval \<Rightarrow> network" where
  "netServing v =
     (\<lambda>req. case req of
               GET b \<Rightarrow> Response 200 (Json v)
             | POST b body \<Rightarrow> Response 200 NoJson)"

definition envOf :: "network \<Rightarrow> bool \<Rightarrow> nat \<Rightarrow> env" where
  "envOf net answer t = \<lparr>network = net, confirm = (\<lambda>msg. answer), now = t\<rparr>"

definition initialState :: app_state where
  "initialState =
     \<lparr>tasks = [], cloudId = None, inputCloudId = [], syncStatus = Offline,
      lastSyncTime = 0, isSyncModalOpen = False, localStorage = Map.empty\<rparr>"

text \<open>
  A task as \<open>handleCreateTask\<close> builds it when no picture was taken (lines 143 to 154),
  and the same task as a bucket returns it after it was pushed.
\<close>

definition taskCreated :: jsval where
  "taskCreated =
     JObj [(js_of ''id'', JStr (js_of ''k3x9q0a1z'')),
           (js_of ''title'', JStr (js_of ''Pompa'')),
           (js_of ''description'', JStr (js_of ''Conta'')),
           (js_of ''machineName'', JStr (js_of ''Pres 2'')),
           (js_of ''imageUrl'', JUndefined),
           (js_of ''assigneeId'', JStr (js_of ''u2'')),
           (js_of ''creatorId'', JStr (js_of ''u1'')),
           (js_of ''priority'', JStr (js_of ''MEDIUM'')),
           (js_of ''status'', JStr (js_of ''PENDING'')),
           (js_of ''createdAt'', JNum 1700000000000)]"

definition taskStored :: jsval where
  "taskStored =
     JObj [(js_of ''id'', JStr (js_of ''k3x9q0a1z'')),
           (js_of ''title'', JStr (js_of ''Pompa'')),
           (js_of ''description'', JStr (js_of ''Conta'')),
           (js_of ''machineName'', JStr (js_of ''Pres 2'')),
           (js_of ''assigneeId'', JStr (js_of ''u2'')),
           (js_of ''creatorId'', JStr (js_of ''u1'')),
           (js_of ''priority'', JStr (js_of ''MEDIUM'')),
           (js_of ''status'', JStr (js_of ''PENDING'')),
           (js_of ''createdAt'', JNum 1700000000000)]"

definition taskOther :: jsval where
  "taskOther =
     JObj [(js_of ''id'', JStr (js_of ''b7'')),
           (js_of ''title'', JStr (js_of ''Valf'')),
           (js_of ''status'', JStr (js_of ''COMPLETED''))]"

text \<open>A session connected to the bucket \<open>fabrika\<close>, holding the task just created.\<close>

definition connectedState :: app_state where
  "connectedState =
     initialState\<lparr>tasks := [taskCreated], cloudId := Some (js_of ''fabrika''),
                  syncStatus := Online, lastSyncTime := 5,
                  localStorage := [''hidro_cloud_id'' \<mapsto> js_of ''fabrika'']\<rparr>"

text \<open>A session with no bucket, the user having typed \<open>Erkan Usta!\<close> into the dialog.\<close>

definition typingState :: app_state where
  "typingState =
     initialState\<lparr>tasks := [taskCreated], inputCloudId := js_of ''Erkan Usta!'',
                  isSyncModalOpen := True\<rparr>"

section \<open>Properties of the normalisation\<close>

lemmas unit_defs =
  isWhiteSpace_def isUpperAZ_def isLowerAZ_def isDigit09_def hyphen_def underscore_def
  inClass_def toLowerCaseUnit_def

lemma upper_to_lower: "isUpperAZ c \<Longrightarrow> isLowerAZ (c + 0x20)"
  unfolding isUpperAZ_def isLowerAZ_def
  by (simp add: word_le_nat_alt unat_word_ariths)

lemma clean_not_white: "isCleanUnit c \<Longrightarrow> \<not> isWhiteSpace c"
  unfolding isCleanUnit_def isWhiteSpace_def isLowerAZ_def isDigit09_def hyphen_def
    underscore_def
  by (auto simp: word_le_nat_alt)

lemma clean_not_upper: "isCleanUnit c \<Longrightarrow> \<not> isUpperAZ c"
  unfolding isCleanUnit_def isUpperAZ_def isLowerAZ_def isDigit09_def hyphen_def
    underscore_def
  by (auto simp: word_le_nat_alt)

lemma clean_inClass: "isCleanUnit c \<Longrightarrow> inClass c"
  by (auto simp: isCleanUnit_def inClass_def)

lemma normalised_unit_clean: "isCleanUnit (toLowerCaseUnit (if inClass c then c else hyphen))"
  using upper_to_lower [of c]
  apply (auto simp: toLowerCaseUnit_def inClass_def isCleanUnit_def)
  apply (auto simp: isUpperAZ_def hyphen_def)
  done

lemma cleanId_unitwise:
  "cleanId s = map (\<lambda>c. if inClass c then toLowerCaseUnit c else hyphen) (trim s)"
  by (auto simp: cleanId_def toLowerCase_def replaceDisallowed_def toLowerCaseUnit_def
      isUpperAZ_def hyphen_def)

lemma cleanId_clean: "list_all isCleanUnit (cleanId s)"
  using normalised_unit_clean
  by (simp add: cleanId_def toLowerCase_def replaceDisallowed_def list_all_iff)

lemma trim_clean:
  assumes "list_all isCleanUnit xs"
  shows "trim xs = xs"
proof -
  have front: "dropWhile isWhiteSpace xs = xs"
    using assms by (cases xs) (auto dest: clean_not_white)
  have "list_all isCleanUnit (rev xs)"
    using assms by (simp add: list_all_iff)
  then have rear: "dropWhile isWhiteSpace (rev xs) = rev xs"
    by (cases "rev xs") (auto dest: clean_not_white)
  show ?thesis by (simp add: trim_def front rear)
qed

lemma replaceDisallowed_clean: "list_all isCleanUnit xs \<Longrightarrow> replaceDisallowed xs = xs"
  by (induction xs) (auto simp: replaceDisallowed_def dest: clean_inClass)

lemma toLowerCase_clean: "list_all isCleanUnit xs \<Longrightarrow> toLowerCase xs = xs"
  by (induction xs) (auto simp: toLowerCase_def toLowerCaseUnit_def dest: clean_not_upper)

lemma cleanId_erkan: "cleanId (js_of ''Erkan Usta!'') = js_of ''erkan-usta-''"
  by (simp add: cleanId_def js_of_def trim_def toLowerCase_def replaceDisallowed_def unit_defs)

lemma cleanId_ab: "cleanId (js_of ''ab'') = js_of ''ab''"
  by (simp add: cleanId_def js_of_def trim_def toLowerCase_def replaceDisallowed_def unit_defs)

lemma connect_valid_starts_fetch:
  assumes "inputCloudId s \<noteq> []" and "3 \<le> length (cleanId (inputCloudId s))"
  shows "\<exists>s' effs. handleConnectCloud e s = (s', CallFetch (cleanId (inputCloudId s)) # effs)
           \<and> Alert AlertMinLength \<notin> set effs"
  using assms
  by (auto simp: handleConnectCloud_def Let_def connectAfterFetch_def
      split: sum.splits prod.splits if_splits option.splits)

text \<open>White space around a core that neither starts nor ends with white space is removed.\<close>

lemma trim_framed:
  assumes pre: "list_all isWhiteSpace pre" and post: "list_all isWhiteSpace post"
    and core: "core = [] \<or> (\<not> isWhiteSpace (hd core) \<and> \<not> isWhiteSpace (last core))"
  shows "trim (pre @ core @ post) = core"
proof (cases "core = []")
  case True
  have "\<forall>x\<in>set (pre @ post). isWhiteSpace x"
    using pre post by (auto simp: list_all_iff)
  then have blank: "dropWhile isWhiteSpace (pre @ post) = []"
    by (simp only: dropWhile_eq_Nil_conv)
  show ?thesis
    by (simp only: trim_def True append_Nil blank dropWhile.simps rev.simps)
next
  case False
  then have ends: "\<not> isWhiteSpace (hd core)" "\<not> isWhiteSpace (last core)"
    using core by auto
  have "dropWhile isWhiteSpace (pre @ core @ post) = dropWhile isWhiteSpace (core @ post)"
    using pre by (intro dropWhile_append2) (simp add: list_all_iff)
  also have "\<dots> = core @ post"
    using False ends(1) by (cases core) auto
  finally have front: "dropWhile isWhiteSpace (pre @ core @ post) = core @ post" .
  have "dropWhile isWhiteSpace (rev post @ rev core) = dropWhile isWhiteSpace (rev core)"
    using post by (intro dropWhile_append2) (simp add: list_all_iff)
  also have "\<dots> = rev core"
    using False ends(2) by (cases "rev core") (auto simp: last_rev [symmetric] simp del: last_rev)
  finally have rear: "dropWhile isWhiteSpace (rev post @ rev core) = rev core" .
  show ?thesis by (simp add: trim_def front rear)
qed

text \<open>The fate of one code unit, spelled out in code units.\<close>

lemma cleanId_unit_cases:
  "(if inClass c then toLowerCaseUnit c else hyphen) =
     (if (0x61 \<le> c \<and> c \<le> 0x7A) \<or> (0x30 \<le> c \<and> c \<le> 0x39) \<or> c = 0x2D \<or> c = 0x5F then c
      else if 0x41 \<le> c \<and> c \<le> 0x5A then c + 0x20
      else 0x2D)"
  by (auto simp: unit_defs word_le_nat_alt)

lemma isWhiteSpace_set:
  "isWhiteSpace c =
     (c \<in> {0x09, 0x0A, 0x0B, 0x0C, 0x0D, 0x20, 0xA0, 0x1680,
            0x2028, 0x2029, 0x202F, 0x205F, 0x3000, 0xFEFF}
      \<or> (0x2000 \<le> c \<and> c \<le> 0x200A))"
  by (simp add: isWhiteSpace_def)

lemma cleanId_framed_example: "cleanId (js_of ''  Ab_1-Z9  '') = js_of ''ab_1-z9''"
  by (simp add: cleanId_def js_of_def trim_def toLowerCase_def replaceDisallowed_def unit_defs)

lemma cleanId_blank_kinds_example:
  "cleanId ([0x09, 0xA0] @ js_of ''Pres 2'' @ [0x0A, 0x3000]) = js_of ''pres-2''"
  by (simp add: cleanId_def js_of_def trim_def toLowerCase_def replaceDisallowed_def unit_defs)

lemma cleanId_turkish_example:
  "cleanId ([0x15E] @ js_of ''ube_7'') = js_of ''-ube_7''"
  by (simp add: cleanId_def js_of_def trim_def toLowerCase_def replaceDisallowed_def unit_defs)

text \<open>
  Claim C3.  Normalising trims the identifier: white space before and after a core that
  neither starts nor ends with white space is removed, white space being TAB, LF, VT,
  FF, CR, SP, NBSP, U+1680, U+2000 to U+200A, LS, PS, U+202F, U+205F, U+3000 and
  U+FEFF.  The result has the length of the core, and each of its code units comes
  from the core's: a to z, 0 to 9, hyphen and underscore are kept, A to Z become a to z,
  and every other code unit becomes a hyphen.  So the result consists of a..z, 0..9,
  hyphen and underscore only.  Blank-framed \<open>Ab_1-Z9\<close> becomes \<open>ab_1-z9\<close>; a tab, a
  no-break space, a line feed and an ideographic space are trimmed as well; a Turkish
  capital S with cedilla becomes a hyphen.  The input \<open>Erkan Usta!\<close> becomes
  \<open>erkan-usta-\<close>, of length at least 3, and connect accepts it: whatever the state and
  the world, the handler's first effect is the fetch of that bucket and the
  minimum-length alert is never shown.
\<close>

theorem cleanId_normalises:
  assumes "list_all isWhiteSpace pre" and "list_all isWhiteSpace post"
    and "core = [] \<or> (\<not> isWhiteSpace (hd core) \<and> \<not> isWhiteSpace (last core))"
  shows "trim (pre @ core @ post) = core
   \<and> length (cleanId (pre @ core @ post)) = length core
   \<and> (\<forall>i < length core.
         cleanId (pre @ core @ post) ! i =
           (if (0x61 \<le> core ! i \<and> core ! i \<le> 0x7A) \<or> (0x30 \<le> core ! i \<and> core ! i \<le> 0x39)
               \<or> core ! i = 0x2D \<or> core ! i = 0x5F
            then core ! i
            else if 0x41 \<le> core ! i \<and> core ! i \<le> 0x5A then core ! i + 0x20
            else 0x2D))
   \<and> (\<forall>c. isWhiteSpace c =
          (c \<in> {0x09, 0x0A, 0x0B, 0x0C, 0x0D, 0x20, 0xA0, 0x1680,
                 0x2028, 0x2029, 0x202F, 0x205F, 0x3000, 0xFEFF}
           \<or> (0x2000 \<le> c \<and> c \<le> 0x200A)))
   \<and> cleanId raw = map (\<lambda>c. if inClass c then toLowerCaseUnit c else hyphen) (trim raw)
   \<and> list_all isCleanUnit (cleanId raw)
   \<and> cleanId (js_of ''  Ab_1-Z9  '') = js_of ''ab_1-z9''
   \<and> cleanId ([0x09, 0xA0] @ js_of ''Pres 2'' @ [0x0A, 0x3000]) = js_of ''pres-2''
   \<and> cleanId ([0x15E] @ js_of ''ube_7'') = js_of ''-ube_7''
   \<and> cleanId (js_of ''Erkan Usta!'') = js_of ''erkan-usta-''
   \<and> 3 \<le> length (cleanId (js_of ''Erkan Usta!''))
   \<and> take 1 (snd (handleConnectCloud e (s\<lparr>inputCloudId := js_of ''Erkan Usta!''\<rparr>)))
       = [CallFetch (js_of ''erkan-usta-'')]
   \<and> Alert AlertMinLength
       \<notin> set (snd (handleConnectCloud e (s\<lparr>inputCloudId := js_of ''Erkan Usta!''\<rparr>)))"
proof -
  let ?s = "s\<lparr>inputCloudId := js_of ''Erkan Usta!''\<rparr>"
  have trimmed: "trim (pre @ core @ post) = core"
    using assms by (rule trim_framed)
  have units: "cleanId (pre @ core @ post) =
      map (\<lambda>c. if (0x61 \<le> c \<and> c \<le> 0x7A) \<or> (0x30 \<le> c \<and> c \<le> 0x39) \<or> c = 0x2D \<or> c = 0x5F
                then c
                else if 0x41 \<le> c \<and> c \<le> 0x5A then c + 0x20
                else 0x2D) core"
    by (simp only: cleanId_unitwise trimmed cleanId_unit_cases)
  have len: "length (cleanId (pre @ core @ post)) = length core"
    by (simp add: units)
  have each: "\<forall>i < length core.
         cleanId (pre @ core @ post) ! i =
           (if (0x61 \<le> core ! i \<and> core ! i \<le> 0x7A) \<or> (0x30 \<le> core ! i \<and> core ! i \<le> 0x39)
               \<or> core ! i = 0x2D \<or> core ! i = 0x5F
            then core ! i
            else if 0x41 \<le> core ! i \<and> core ! i \<le> 0x5A then core ! i + 0x20
            else 0x2D)"
    by (simp add: units)
  have long: "3 \<le> length (cleanId (js_of ''Erkan Usta!''))"
    by (simp add: cleanId_erkan) (simp add: js_of_def)
  have "inputCloudId ?s \<noteq> []"
    by (simp add: js_of_def)
  moreover have "3 \<le> length (cleanId (inputCloudId ?s))"
    using long by simp
  ultimately obtain s' effs where
    run: "handleConnectCloud e ?s = (s', CallFetch (cleanId (inputCloudId ?s)) # effs)"
    and quiet: "Alert AlertMinLength \<notin> set effs"
    using connect_valid_starts_fetch [of ?s e] by blast
  from run have first: "take 1 (snd (handleConnectCloud e ?s)) = [CallFetch (js_of ''erkan-usta-'')]"
    by (simp add: cleanId_erkan)
  from run quiet have none: "Alert AlertMinLength \<notin> set (snd (handleConnectCloud e ?s))"
    by simp
  show ?thesis
    using trimmed len each isWhiteSpace_set cleanId_unitwise cleanId_clean
      cleanId_framed_example cleanId_blank_kinds_example cleanId_turkish_example
      cleanId_erkan long first none
    by blast
qed

text \<open>
  Claim C3 on \<open>Ab_1-Z9\<close> between two blanks and a line feed with an ideographic space:
  an upper-case letter, an underscore, a digit and a second upper-case letter.
\<close>

theorem cleanId_normalises_witness:
  "list_all isWhiteSpace (js_of ''  '') \<and> list_all isWhiteSpace [0x0A, 0x3000]
   \<and> \<not> isWhiteSpace (hd (js_of ''Ab_1-Z9'')) \<and> \<not> isWhiteSpace (last (js_of ''Ab_1-Z9''))
   \<and> trim (js_of ''  '' @ js_of ''Ab_1-Z9'' @ [0x0A, 0x3000]) = js_of ''Ab_1-Z9''
   \<and> length (cleanId (js_of ''  '' @ js_of ''Ab_1-Z9'' @ [0x0A, 0x3000])) = 7
   \<and> cleanId (js_of ''  '' @ js_of ''Ab_1-Z9'' @ [0x0A, 0x3000]) ! 0 = 0x61
   \<and> cleanId (js_of ''  '' @ js_of ''Ab_1-Z9'' @ [0x0A, 0x3000]) ! 2 = 0x5F
   \<and> cleanId (js_of ''  '' @ js_of ''Ab_1-Z9'' @ [0x0A, 0x3000]) ! 3 = 0x31
   \<and> cleanId (js_of ''  '' @ js_of ''Ab_1-Z9'' @ [0x0A, 0x3000]) ! 5 = 0x7A"
proof -
  have pre: "list_all isWhiteSpace (js_of ''  '')"
    by (simp add: js_of_def isWhiteSpace_def)
  have post: "list_all isWhiteSpace [0x0A, 0x3000]"
    by (simp add: isWhiteSpace_def)
  have ends: "\<not> isWhiteSpace (hd (js_of ''Ab_1-Z9''))" "\<not> isWhiteSpace (last (js_of ''Ab_1-Z9''))"
    by (simp_all add: js_of_def isWhiteSpace_def)
  then have core: "js_of ''Ab_1-Z9'' = [] \<or>
      (\<not> isWhiteSpace (hd (js_of ''Ab_1-Z9'')) \<and> \<not> isWhiteSpace (last (js_of ''Ab_1-Z9'')))"
    by simp
  have units: "js_of ''Ab_1-Z9'' = [0x41, 0x62, 0x5F, 0x31, 0x2D, 0x5A, 0x39]"
    by (simp add: js_of_def)
  note at = cleanId_normalises [OF pre post core]
  have len: "length (cleanId (js_of ''  '' @ js_of ''Ab_1-Z9'' @ [0x0A, 0x3000])) = 7"
    using at by (simp add: units)
  note each = at [THEN conjunct2, THEN conjunct2, THEN conjunct1, rule_format]
  have u0: "cleanId (js_of ''  '' @ js_of ''Ab_1-Z9'' @ [0x0A, 0x3000]) ! 0 = 0x61"
    using each [of 0] by (simp add: units)
  have u2: "cleanId (js_of ''  '' @ js_of ''Ab_1-Z9'' @ [0x0A, 0x3000]) ! 2 = 0x5F"
    using each [of 2] by (simp add: units)
  have u3: "cleanId (js_of ''  '' @ js_of ''Ab_1-Z9'' @ [0x0A, 0x3000]) ! 3 = 0x31"
    using each [of 3] by (simp add: units)
  have u5: "cleanId (js_of ''  '' @ js_of ''Ab_1-Z9'' @ [0x0A, 0x3000]) ! 5 = 0x7A"
    using each [of 5] by (simp add: units)
  show ?thesis
    using pre post ends at [THEN conjunct1] len u0 u2 u3 u5
    by simp
qed

text \<open>
  Claim C9.  Normalising a normalised identifier changes nothing: its code units are
  neither white space, nor outside the class, nor upper case.
\<close>

theorem cleanId_idempotent: "cleanId (cleanId raw) = cleanId raw"
proof -
  have clean: "list_all isCleanUnit (cleanId raw)"
    by (rule cleanId_clean)
  have "cleanId (cleanId raw) = toLowerCase (replaceDisallowed (trim (cleanId raw)))"
    by (simp add: cleanId_def)
  also have "\<dots> = toLowerCase (replaceDisallowed (cleanId raw))"
    using clean by (simp add: trim_clean)
  also have "\<dots> = toLowerCase (cleanId raw)"
    using clean by (simp add: replaceDisallowed_clean)
  also have "\<dots> = cleanId raw"
    using clean by (simp add: toLowerCase_clean)
  finally show ?thesis .
qed

section \<open>Properties of the storage service\<close>

lemma fetch_down:
  "fetchCloudTasks netDown b
     = Inr \<lparr>success = False, data = None, error = Some msgNoInternet\<rparr>"
  by (simp add: fetchCloudTasks_def fetchTry_def netDown_def)

lemma fetch_serving:
  "fetchCloudTasks (netServing (JArr xs)) b
     = Inr \<lparr>success = True, data = Some xs, error = None\<rparr>"
  by (simp add: fetchCloudTasks_def fetchTry_def netServing_def response_ok_def)

lemma fetch_status_404:
  "fetchCloudTasks (netStatus 404 p) b
     = Inr \<lparr>success = True, data = Some [], error = Some NOT_FOUND\<rparr>"
  by (simp add: fetchCloudTasks_def fetchTry_def netStatus_def response_ok_def)

lemma update_status:
  "updateCloudTasks (netStatus g p) b ts =
     Inr (if response_ok p then \<lparr>success = True, data = None, error = None\<rparr>
          else \<lparr>success = False, data = None, error = Some msgSaveFailed\<rparr>)"
  by (simp add: updateCloudTasks_def updateSettled_def updateTry_def netStatus_def)

lemma update_failed:
  "updateSettled NetworkFailure
     = Inr \<lparr>success = False, data = None, error = Some msgConnectionError\<rparr>"
  by (simp add: updateSettled_def updateTry_def)

lemma fetch_total: "\<exists>r. fetchCloudTasks net b = Inr r"
  by (simp add: fetchCloudTasks_def split: sum.splits)

lemma update_total: "\<exists>r. updateCloudTasks net b ts = Inr r"
  by (simp add: updateCloudTasks_def updateSettled_def split: sum.splits)

text \<open>Only the branch for an array body returns a collection that is not empty.\<close>

lemma fetch_data_nonempty:
  "fetchCloudTasks net b = Inr res \<Longrightarrow> data res = Some d \<Longrightarrow> d \<noteq> [] \<Longrightarrow>
   success res \<and> error res = None"
  by (auto simp: fetchCloudTasks_def fetchTry_def
      split: http_outcome.splits json_body.splits jsval.splits if_splits)

text \<open>
  Claim C2, where it fails.  A response with status 200 whose body is not JSON is a
  successful response with a non-array body, yet \<open>fetchCloudTasks\<close> does not return
  success with an empty collection: \<open>response.json()\<close> throws inside the \<open>try\<close> block
  and the \<open>catch\<close> returns the connectivity failure.
\<close>

theorem fetchCloudTasks_non_json_counterexample:
  "response_ok 200
   \<and> netGarbled (GET (js_of ''fabrika'')) = Response 200 NoJson
   \<and> fetchCloudTasks netGarbled (js_of ''fabrika'')
       = Inr \<lparr>success = False, data = None, error = Some msgNoInternet\<rparr>"
  by (simp add: fetchCloudTasks_def fetchTry_def netGarbled_def response_ok_def)

text \<open>
  Claim C2, amended.  \<open>fetchCloudTasks\<close> returns: success with the parsed array when the
  response is successful and its body parses to a JSON array; success with an empty
  collection when the response is successful and its body parses to a JSON value that
  is no array; the connectivity failure when the response is successful and its body is
  not JSON; success with an empty collection and the \<open>NOT_FOUND\<close> marker on status 404;
  the remote failure on every other status; the connectivity failure when the request
  itself fails.  The two failure messages differ, and the promise is never rejected.
\<close>

theorem fetchCloudTasks_results:
  "(net (GET b) = Response st (Json (JArr xs)) \<and> response_ok st \<longrightarrow>
      fetchCloudTasks net b = Inr \<lparr>success = True, data = Some xs, error = None\<rparr>)
   \<and> (net (GET b) = Response st (Json v) \<and> response_ok st \<and> \<not> isArray v \<longrightarrow>
      fetchCloudTasks net b = Inr \<lparr>success = True, data = Some [], error = None\<rparr>)
   \<and> (net (GET b) = Response st NoJson \<and> response_ok st \<longrightarrow>
      fetchCloudTasks net b
        = Inr \<lparr>success = False, data = None, error = Some msgNoInternet\<rparr>)
   \<and> (net (GET b) = Response 404 body \<longrightarrow>
      fetchCloudTasks net b
        = Inr \<lparr>success = True, data = Some [], error = Some NOT_FOUND\<rparr>)
   \<and> (net (GET b) = Response st body \<and> \<not> response_ok st \<and> st \<noteq> 404 \<longrightarrow>
      fetchCloudTasks net b
        = Inr \<lparr>success = False, data = None, error = Some msgFetchFailed\<rparr>)
   \<and> (net (GET b) = NetworkFailure \<longrightarrow>
      fetchCloudTasks net b
        = Inr \<lparr>success = False, data = None, error = Some msgNoInternet\<rparr>)
   \<and> (\<exists>r. fetchCloudTasks net b = Inr r)
   \<and> msgFetchFailed \<noteq> msgNoInternet"
proof -
  have arr: "net (GET b) = Response st (Json (JArr xs)) \<and> response_ok st \<longrightarrow>
      fetchCloudTasks net b = Inr \<lparr>success = True, data = Some xs, error = None\<rparr>"
    by (simp add: fetchCloudTasks_def fetchTry_def)
  have nonarr: "net (GET b) = Response st (Json v) \<and> response_ok st \<and> \<not> isArray v \<longrightarrow>
      fetchCloudTasks net b = Inr \<lparr>success = True, data = Some [], error = None\<rparr>"
    by (cases v) (simp_all add: fetchCloudTasks_def fetchTry_def isArray_def)
  have nojson: "net (GET b) = Response st NoJson \<and> response_ok st \<longrightarrow>
      fetchCloudTasks net b
        = Inr \<lparr>success = False, data = None, error = Some msgNoInternet\<rparr>"
    by (simp add: fetchCloudTasks_def fetchTry_def)
  have missing: "net (GET b) = Response 404 body \<longrightarrow>
      fetchCloudTasks net b
        = Inr \<lparr>success = True, data = Some [], error = Some NOT_FOUND\<rparr>"
    by (simp add: fetchCloudTasks_def fetchTry_def response_ok_def)
  have other: "net (GET b) = Response st body \<and> \<not> response_ok st \<and> st \<noteq> 404 \<longrightarrow>
      fetchCloudTasks net b
        = Inr \<lparr>success = False, data = None, error = Some msgFetchFailed\<rparr>"
    by (simp add: fetchCloudTasks_def fetchTry_def)
  have down: "net (GET b) = NetworkFailure \<longrightarrow>
      fetchCloudTasks net b
        = Inr \<lparr>success = False, data = None, error = Some msgNoInternet\<rparr>"
    by (simp add: fetchCloudTasks_def fetchTry_def)
  have msgs: "msgFetchFailed \<noteq> msgNoInternet"
    by (simp add: msgFetchFailed_def msgNoInternet_def js_of_def)
  show ?thesis
    using arr nonarr nojson missing other down fetch_total msgs by blast
qed

text \<open>One network for each case of the amended claim C2.\<close>

theorem fetchCloudTasks_results_witness:
  "fetchCloudTasks (netServing (JArr [taskStored])) (js_of ''fabrika'')
     = Inr \<lparr>success = True, data = Some [taskStored], error = None\<rparr>
   \<and> fetchCloudTasks (netServing JNull) (js_of ''fabrika'')
     = Inr \<lparr>success = True, data = Some [], error = None\<rparr>
   \<and> fetchCloudTasks netGarbled (js_of ''fabrika'')
     = Inr \<lparr>success = False, data = None, error = Some msgNoInternet\<rparr>
   \<and> fetchCloudTasks (netStatus 404 200) (js_of ''fabrika'')
     = Inr \<lparr>success = True, data = Some [], error = Some NOT_FOUND\<rparr>
   \<and> fetchCloudTasks (netStatus 500 200) (js_of ''fabrika'')
     = Inr \<lparr>success = False, data = None, error = Some msgFetchFailed\<rparr>
   \<and> fetchCloudTasks netDown (js_of ''fabrika'')
     = Inr \<lparr>success = False, data = None, error = Some msgNoInternet\<rparr>"
proof -
  let ?b = "js_of ''fabrika''"
  have ok: "response_ok 200" and bad: "\<not> response_ok 500" "(500::nat) \<noteq> 404"
    by (simp_all add: response_ok_def)
  have a: "netServing (JArr [taskStored]) (GET ?b) = Response 200 (Json (JArr [taskStored]))"
    by (simp add: netServing_def)
  have b: "netServing JNull (GET ?b) = Response 200 (Json JNull)" "\<not> isArray JNull"
    by (simp_all add: netServing_def isArray_def)
  have c: "netGarbled (GET ?b) = Response 200 NoJson"
    by (simp add: netGarbled_def)
  have d: "netStatus 404 200 (GET ?b) = Response 404 NoJson"
    by (simp add: netStatus_def)
  have e: "netStatus 500 200 (GET ?b) = Response 500 NoJson"
    by (simp add: netStatus_def)
  have f: "netDown (GET ?b) = NetworkFailure"
    by (simp add: netDown_def)
  show ?thesis
    using fetchCloudTasks_results [of "netServing (JArr [taskStored])" ?b 200 "[taskStored]"] a ok
      fetchCloudTasks_results [of "netServing JNull" ?b 200 _ JNull] b
      fetchCloudTasks_results [of netGarbled ?b 200] c
      fetchCloudTasks_results [of "netStatus 404 200" ?b _ _ _ NoJson] d
      fetchCloudTasks_results [of "netStatus 500 200" ?b 500 _ _ NoJson] e bad
      fetchCloudTasks_results [of netDown ?b] f
    by simp
qed

section \<open>Properties of the poll\<close>

text \<open>
  \<open>JSON.stringify\<close> leaves out a property whose value is \<open>undefined\<close>: the task as
  created and the task as stored are different values with one serialisation.
\<close>

lemma stringify_stored_created:
  "JSON_stringify (JArr [taskStored]) = JSON_stringify (JArr [taskCreated])"
  by (simp add: JSON_stringify_def taskStored_def taskCreated_def)

lemma stored_not_created: "taskStored \<noteq> taskCreated"
  by (simp add: taskStored_def taskCreated_def js_of_def)

lemma stringify_other_created:
  "JSON_stringify (JArr [taskOther]) \<noteq> JSON_stringify (JArr [taskCreated])"
  by (simp add: JSON_stringify_def taskOther_def taskCreated_def QuoteJSONString_def js_of_def
      quoteUnit_def isHighSurrogate_def isLowSurrogate_def)

lemma connected_facts:
  "cloudId connectedState = Some (js_of ''fabrika'')"
  "tasks connectedState = [taskCreated]"
  "lastSyncTime connectedState = 5"
  "syncStatus connectedState = Online"
  by (simp_all add: connectedState_def initialState_def)

lemma fabrika_nonempty: "js_of ''fabrika'' \<noteq> []"
  by (simp add: js_of_def)

text \<open>
  Claim C1, where it fails.  The local collection holds the task just created, whose
  \<open>imageUrl\<close> property is \<open>undefined\<close>; the bucket returns the task without that property.
  The remote collection is not empty and differs from the local one, but the poll
  neither replaces the local collection nor records a time.
\<close>

theorem poll_keeps_undefined_property_counterexample:
  "cloudId connectedState = Some (js_of ''fabrika'')
   \<and> fetchCloudTasks (network (envOf (netServing (JArr [taskStored])) False 9)) (js_of ''fabrika'')
       = Inr \<lparr>success = True, data = Some [taskStored], error = None\<rparr>
   \<and> [taskStored] \<noteq> []
   \<and> [taskStored] \<noteq> tasks connectedState
   \<and> tasks (fst (poll (envOf (netServing (JArr [taskStored])) False 9) connectedState))
       \<noteq> [taskStored]
   \<and> lastSyncTime (fst (poll (envOf (netServing (JArr [taskStored])) False 9) connectedState))
       = lastSyncTime connectedState"
proof -
  have same: "fst (poll (envOf (netServing (JArr [taskStored])) False 9) connectedState)
      = connectedState"
    by (simp add: poll_def pollThen_def envOf_def fetch_serving stringify_stored_created
        connectedState_def initialState_def js_of_def)
  show ?thesis
    using stored_not_created
    by (simp add: same) (simp add: connected_facts envOf_def fetch_serving)
qed

text \<open>
  Claim C1, amended.  For every active bucket id and every successful fetch whose
  collection is not empty: if the JSON serialisation of the remote collection equals
  that of the local one (as it does when the two are equal), one poll leaves the task
  collection and the last-sync time unchanged; if the serialisations differ, the poll
  replaces the local collection by the remote one and records the current time.  In
  both cases the status is online afterwards and the bucket id and the storage are
  unchanged.
\<close>

theorem poll_compares_serialisations:
  assumes "cloudId s = Some cid" and "cid \<noteq> []"
    and "fetchCloudTasks (network e) cid = Inr res"
    and "success res" and "data res = Some remote" and "remote \<noteq> []"
  shows "(JSON_stringify (JArr remote) = JSON_stringify (JArr (tasks s)) \<longrightarrow>
            tasks (fst (poll e s)) = tasks s
          \<and> lastSyncTime (fst (poll e s)) = lastSyncTime s)
       \<and> (remote = tasks s \<longrightarrow>
            tasks (fst (poll e s)) = tasks s
          \<and> lastSyncTime (fst (poll e s)) = lastSyncTime s)
       \<and> (JSON_stringify (JArr remote) \<noteq> JSON_stringify (JArr (tasks s)) \<longrightarrow>
            tasks (fst (poll e s)) = remote
          \<and> lastSyncTime (fst (poll e s)) = now e)
       \<and> syncStatus (fst (poll e s)) = Online
       \<and> cloudId (fst (poll e s)) = cloudId s
       \<and> localStorage (fst (poll e s)) = localStorage s"
  using assms by (auto simp: poll_def pollThen_def Let_def)

text \<open>
  The amended claim C1 at three fetches of the connected session: a different task, the
  stored form of the local task, and the local collection itself.
\<close>

theorem poll_compares_serialisations_witness:
  "cloudId connectedState = Some (js_of ''fabrika'')
   \<and> js_of ''fabrika'' \<noteq> []
   \<and> fetchCloudTasks (network (envOf (netServing (JArr [taskOther])) False 9)) (js_of ''fabrika'')
       = Inr \<lparr>success = True, data = Some [taskOther], error = None\<rparr>
   \<and> tasks (fst (poll (envOf (netServing (JArr [taskOther])) False 9) connectedState))
       = [taskOther]
   \<and> lastSyncTime (fst (poll (envOf (netServing (JArr [taskOther])) False 9) connectedState)) = 9
   \<and> tasks (fst (poll (envOf (netServing (JArr [taskStored])) False 9) connectedState))
       = [taskCreated]
   \<and> lastSyncTime (fst (poll (envOf (netServing (JArr [taskStored])) False 9) connectedState)) = 5
   \<and> tasks (fst (poll (envOf (netServing (JArr [taskCreated])) False 9) connectedState))
       = [taskCreated]
   \<and> lastSyncTime (fst (poll (envOf (netServing (JArr [taskCreated])) False 9) connectedState)) = 5"
proof -
  let ?e = "\<lambda>v. envOf (netServing (JArr [v])) False 9"
  have fetched: "\<And>v. fetchCloudTasks (network (?e v)) (js_of ''fabrika'')
      = Inr \<lparr>success = True, data = Some [v], error = None\<rparr>"
    by (simp add: envOf_def fetch_serving)
  have clock: "\<And>v. now (?e v) = 9"
    by (simp add: envOf_def)
  note at = poll_compares_serialisations
    [OF connected_facts(1) fabrika_nonempty fetched, simplified connected_facts clock, simplified]
  show ?thesis
    using at [of taskOther] at [of taskStored] at [of taskCreated]
      stringify_other_created stringify_stored_created fetched [of taskOther]
    by (simp add: connected_facts fabrika_nonempty)
qed

text \<open>
  Claim C7, where it fails.  The session is online and the network is down: the fetch
  of the poll fails, and the status is still online afterwards.
\<close>

theorem poll_failure_stays_online_counterexample:
  "syncStatus connectedState = Online
   \<and> fetchCloudTasks (network (envOf netDown False 9)) (js_of ''fabrika'')
       = Inr \<lparr>success = False, data = None, error = Some msgNoInternet\<rparr>
   \<and> snd (poll (envOf netDown False 9) connectedState) = [CallFetch (js_of ''fabrika'')]
   \<and> syncStatus (fst (poll (envOf netDown False 9) connectedState)) = Online"
  by (simp add: poll_def pollThen_def envOf_def connectedState_def initialState_def
      fetch_down js_of_def)

text \<open>
  Claim C7, amended.  A poll whose fetch fails changes nothing at all: the whole state,
  and with it the sync status, is what it was, whatever the status (online included).
\<close>

theorem poll_failure_changes_nothing:
  "cloudId s = Some cid \<Longrightarrow> fetchCloudTasks (network e) cid = Inr res \<Longrightarrow> \<not> success res \<Longrightarrow>
   fst (poll e s) = s \<and> syncStatus (fst (poll e s)) = syncStatus s"
  by (simp add: poll_def pollThen_def split: option.splits)

text \<open>The amended claim C7 on a session that is syncing while the network is down.\<close>

theorem poll_failure_changes_nothing_witness:
  "cloudId (connectedState\<lparr>syncStatus := Syncing\<rparr>) = Some (js_of ''fabrika'')
   \<and> fetchCloudTasks (network (envOf netDown False 9)) (js_of ''fabrika'')
       = Inr \<lparr>success = False, data = None, error = Some msgNoInternet\<rparr>
   \<and> \<not> success \<lparr>success = False, data = None, error = Some msgNoInternet\<rparr>
   \<and> fst (poll (envOf netDown False 9) (connectedState\<lparr>syncStatus := Syncing\<rparr>))
       = connectedState\<lparr>syncStatus := Syncing\<rparr>
   \<and> syncStatus (fst (poll (envOf netDown False 9) (connectedState\<lparr>syncStatus := Syncing\<rparr>)))
       = Syncing"
proof -
  let ?s = "connectedState\<lparr>syncStatus := Syncing\<rparr>"
  let ?e = "envOf netDown False 9"
  let ?r = "\<lparr>success = False, data = None, error = Some msgNoInternet\<rparr>"
  have active: "cloudId ?s = Some (js_of ''fabrika'')"
    by (simp add: connected_facts)
  have fetched: "fetchCloudTasks (network ?e) (js_of ''fabrika'') = Inr ?r"
    by (simp add: envOf_def fetch_down)
  have failed: "\<not> success ?r"
    by simp
  have status: "syncStatus ?s = Syncing"
    by simp
  show ?thesis
    using active fetched failed status poll_failure_changes_nothing [OF active fetched failed]
    by simp
qed

section \<open>Properties of the push\<close>

lemma pushThen_tasks: "tasks (pushThen t res s) = tasks s"
  by (simp add: pushThen_def)

lemma updateTasksAndSync_tasks: "tasks (fst (updateTasksAndSync s new)) = new"
  by (simp add: updateTasksAndSync_def Let_def split: option.splits)

lemma step_tasks: "tasks (fst (step ss ev)) = applyMutations [ev] (tasks (fst ss))"
proof (cases ev)
  case (Mutation m)
  have "tasks (fst (updateTasksAndSync (fst ss) (m (tasks (fst ss))))) = m (tasks (fst ss))"
    by (rule updateTasksAndSync_tasks)
  then show ?thesis
    using Mutation by (auto simp: step_def split: prod.splits option.splits)
next
  case (PushSettles i out t)
  then show ?thesis
    by (simp add: step_def pushThen_tasks split: sum.splits)
qed

text \<open>Whatever the schedule, the collection is the mutations applied in order.\<close>

lemma run_tasks: "tasks (fst (run ss evs)) = applyMutations evs (tasks (fst ss))"
proof (induction evs arbitrary: ss)
  case Nil
  then show ?case by (simp add: run_def)
next
  case (Cons ev evs)
  have "run ss (ev # evs) = run (step ss ev) evs"
    by (simp add: run_def)
  then have "tasks (fst (run ss (ev # evs))) = applyMutations evs (tasks (fst (step ss ev)))"
    using Cons.IH by simp
  also have "\<dots> = applyMutations evs (applyMutations [ev] (tasks (fst ss)))"
    by (simp add: step_tasks)
  also have "\<dots> = applyMutations (ev # evs) (tasks (fst ss))"
    by (cases ev) simp_all
  finally show ?case .
qed

text \<open>
  Claim C4.  While a bucket is active, \<open>updateTasksAndSync\<close> stores the new collection
  and sets the status to syncing at once, and starts the push of that collection to
  the bucket.  The completion of a push, successful or not, changes the sync status
  and (on success) the last-sync time and nothing else.  So under every schedule of
  mutations and push completions the collection is the mutations applied in order: for
  a mutation, its push and a second mutation, the result is the second mutation
  applied to the first, wherever the push completes; and after a push that fails the
  mutation is still there, with the status error.
\<close>

theorem push_never_rewrites_tasks:
  assumes "cloudId s = Some b" and "b \<noteq> []"
  shows "updateTasksAndSync s new
           = (s\<lparr>tasks := new, syncStatus := Syncing\<rparr>, Some (b, new))
    \<and> (\<forall>t res s'.
          tasks (pushThen t res s') = tasks s'
        \<and> cloudId (pushThen t res s') = cloudId s'
        \<and> localStorage (pushThen t res s') = localStorage s'
        \<and> pushThen t res s' =
            (if success res then s'\<lparr>syncStatus := Online, lastSyncTime := t\<rparr>
             else s'\<lparr>syncStatus := Error\<rparr>))
    \<and> (\<forall>evs pending. tasks (fst (run (s, pending) evs)) = applyMutations evs (tasks s))
    \<and> run (s, []) [Mutation m1]
         = (s\<lparr>tasks := m1 (tasks s), syncStatus := Syncing\<rparr>, [(b, m1 (tasks s))])
    \<and> tasks (fst (run (s, []) [Mutation m1, PushSettles 0 out t, Mutation m2]))
         = m2 (m1 (tasks s))
    \<and> tasks (fst (run (s, []) [Mutation m1, Mutation m2, PushSettles 0 out t]))
         = m2 (m1 (tasks s))
    \<and> tasks (fst (run (s, []) [Mutation m1, PushSettles 0 NetworkFailure t])) = m1 (tasks s)
    \<and> syncStatus (fst (run (s, []) [Mutation m1, PushSettles 0 NetworkFailure t])) = Error"
proof -
  have start: "updateTasksAndSync s new
      = (s\<lparr>tasks := new, syncStatus := Syncing\<rparr>, Some (b, new))" for new
    using assms by (simp add: updateTasksAndSync_def Let_def)
  have settle: "\<forall>t res s'.
          tasks (pushThen t res s') = tasks s'
        \<and> cloudId (pushThen t res s') = cloudId s'
        \<and> localStorage (pushThen t res s') = localStorage s'
        \<and> pushThen t res s' =
            (if success res then s'\<lparr>syncStatus := Online, lastSyncTime := t\<rparr>
             else s'\<lparr>syncStatus := Error\<rparr>)"
    by (simp add: pushThen_def)
  have any: "\<forall>evs pending. tasks (fst (run (s, pending) evs)) = applyMutations evs (tasks s)"
    by (simp add: run_tasks)
  have one: "run (s, []) [Mutation m1]
      = (s\<lparr>tasks := m1 (tasks s), syncStatus := Syncing\<rparr>, [(b, m1 (tasks s))])"
    by (simp add: run_def step_def start)
  have failed: "run (s, []) [Mutation m1, PushSettles 0 NetworkFailure t]
      = (s\<lparr>tasks := m1 (tasks s), syncStatus := Error\<rparr>, [])"
    by (simp add: run_def step_def start update_failed pushThen_def)
  show ?thesis
    using start [of new] settle any one
    by (simp add: run_tasks failed)
qed

text \<open>
  Claim C4 on the connected session: a task is added, its push is refused by the
  server, and a second task is added before or after that.
\<close>

theorem push_never_rewrites_tasks_witness:
  "cloudId connectedState = Some (js_of ''fabrika'') \<and> js_of ''fabrika'' \<noteq> []
   \<and> updateTasksAndSync connectedState [taskOther, taskCreated]
       = (connectedState\<lparr>tasks := [taskOther, taskCreated], syncStatus := Syncing\<rparr>,
          Some (js_of ''fabrika'', [taskOther, taskCreated]))
   \<and> tasks (fst (run (connectedState, [])
        [Mutation ((#) taskOther), PushSettles 0 (Response 500 NoJson) 7,
         Mutation ((#) taskStored)]))
       = [taskStored, taskOther, taskCreated]
   \<and> tasks (fst (run (connectedState, [])
        [Mutation ((#) taskOther), Mutation ((#) taskStored),
         PushSettles 0 (Response 500 NoJson) 7]))
       = [taskStored, taskOther, taskCreated]
   \<and> tasks (fst (run (connectedState, [])
        [Mutation ((#) taskOther), PushSettles 0 NetworkFailure 7]))
       = [taskOther, taskCreated]
   \<and> syncStatus (fst (run (connectedState, [])
        [Mutation ((#) taskOther), PushSettles 0 NetworkFailure 7])) = Error"
  using connected_facts(1) fabrika_nonempty
    push_never_rewrites_tasks [OF connected_facts(1) fabrika_nonempty,
      of "[taskOther, taskCreated]" "(#) taskOther" "Response 500 NoJson" 7 "(#) taskStored"]
  by (simp add: connected_facts)

section \<open>Properties of connect and disconnect\<close>

lemma connect_valid:
  assumes "inputCloudId s \<noteq> []" and "3 \<le> length (cleanId (inputCloudId s))"
    and "fetchCloudTasks (network e) (cleanId (inputCloudId s)) = Inr res"
  shows "handleConnectCloud e s =
     (fst (connectAfterFetch e (cleanId (inputCloudId s)) (tasks s) res
             (s\<lparr>syncStatus := Syncing\<rparr>)),
      CallFetch (cleanId (inputCloudId s))
        # snd (connectAfterFetch e (cleanId (inputCloudId s)) (tasks s) res
                 (s\<lparr>syncStatus := Syncing\<rparr>)))"
  using assms by (simp add: handleConnectCloud_def Let_def split: prod.splits)

lemma typing_facts:
  "inputCloudId typingState \<noteq> []"
  "3 \<le> length (cleanId (inputCloudId typingState))"
  "cleanId (inputCloudId typingState) = js_of ''erkan-usta-''"
  "tasks typingState = [taskCreated]"
  "cloudId typingState = None"
  by (simp_all add: typingState_def initialState_def cleanId_erkan) (simp_all add: js_of_def)

text \<open>
  Claim C5.  When the fetch of connect signals not-found, the handler's next step is
  the push of the current local collection to the new bucket.  If that push fails, the
  status becomes error and the active bucket id, the storage and the collection are
  what they were; if it succeeds, the normalised id becomes the active bucket id, is
  stored under \<open>hidro_cloud_id\<close>, and the status becomes online.
\<close>

theorem connect_creates_bucket:
  assumes "inputCloudId s \<noteq> []" and "3 \<le> length (cleanId (inputCloudId s))"
    and "fetchCloudTasks (network e) (cleanId (inputCloudId s)) = Inr res"
    and "success res" and "error res = Some NOT_FOUND"
  shows "take 2 (snd (handleConnectCloud e s))
           = [CallFetch (cleanId (inputCloudId s)),
              CallUpdate (cleanId (inputCloudId s)) (tasks s)]
    \<and> (\<forall>r. updateCloudTasks (network e) (cleanId (inputCloudId s)) (tasks s) = Inr r
             \<and> \<not> success r \<longrightarrow>
          syncStatus (fst (handleConnectCloud e s)) = Error
        \<and> cloudId (fst (handleConnectCloud e s)) = cloudId s
        \<and> localStorage (fst (handleConnectCloud e s)) = localStorage s
        \<and> tasks (fst (handleConnectCloud e s)) = tasks s)
    \<and> (\<forall>r. updateCloudTasks (network e) (cleanId (inputCloudId s)) (tasks s) = Inr r
             \<and> success r \<longrightarrow>
          syncStatus (fst (handleConnectCloud e s)) = Online
        \<and> cloudId (fst (handleConnectCloud e s)) = Some (cleanId (inputCloudId s))
        \<and> localStorage (fst (handleConnectCloud e s)) ''hidro_cloud_id''
            = Some (cleanId (inputCloudId s))
        \<and> tasks (fst (handleConnectCloud e s)) = tasks s)"
proof -
  let ?cid = "cleanId (inputCloudId s)"
  let ?s1 = "s\<lparr>syncStatus := Syncing\<rparr>"
  have run: "handleConnectCloud e s =
     (fst (connectAfterFetch e ?cid (tasks s) res ?s1),
      CallFetch ?cid # snd (connectAfterFetch e ?cid (tasks s) res ?s1))"
    using assms(1-3) by (rule connect_valid)
  obtain r where r: "updateCloudTasks (network e) ?cid (tasks s) = Inr r"
    using update_total by blast
  show ?thesis
  proof (cases "success r")
    case True
    then have "connectAfterFetch e ?cid (tasks s) res ?s1
        = (connectSuccess ?cid ?s1, [CallUpdate ?cid (tasks s), Alert AlertRoomCreated])"
      using assms(4,5) r by (simp add: connectAfterFetch_def)
    then show ?thesis
      using run r True by (simp add: connectSuccess_def)
  next
    case False
    then have "connectAfterFetch e ?cid (tasks s) res ?s1
        = (?s1\<lparr>syncStatus := Error\<rparr>, [CallUpdate ?cid (tasks s), Alert AlertSetupFailed])"
      using assms(4,5) r by (simp add: connectAfterFetch_def)
    then show ?thesis
      using run r False by simp
  qed
qed

text \<open>
  Claim C5 on a new bucket: once with a server that accepts the first write, once with
  a server that answers it with status 500.
\<close>

theorem connect_creates_bucket_witness:
  "fetchCloudTasks (network (envOf (netStatus 404 200) False 3))
       (cleanId (inputCloudId typingState))
      = Inr \<lparr>success = True, data = Some [], error = Some NOT_FOUND\<rparr>
   \<and> take 2 (snd (handleConnectCloud (envOf (netStatus 404 200) False 3) typingState))
      = [CallFetch (js_of ''erkan-usta-''), CallUpdate (js_of ''erkan-usta-'') [taskCreated]]
   \<and> syncStatus (fst (handleConnectCloud (envOf (netStatus 404 200) False 3) typingState))
      = Online
   \<and> cloudId (fst (handleConnectCloud (envOf (netStatus 404 200) False 3) typingState))
      = Some (js_of ''erkan-usta-'')
   \<and> localStorage (fst (handleConnectCloud (envOf (netStatus 404 200) False 3) typingState))
        ''hidro_cloud_id''
      = Some (js_of ''erkan-usta-'')
   \<and> syncStatus (fst (handleConnectCloud (envOf (netStatus 404 500) False 3) typingState))
      = Error
   \<and> cloudId (fst (handleConnectCloud (envOf (netStatus 404 500) False 3) typingState)) = None
   \<and> localStorage (fst (handleConnectCloud (envOf (netStatus 404 500) False 3) typingState))
      = localStorage typingState"
proof -
  let ?ok = "envOf (netStatus 404 200) False 3"
  let ?ko = "envOf (netStatus 404 500) False 3"
  let ?nf = "\<lparr>success = True, data = Some [], error = Some NOT_FOUND\<rparr>"
  have f1: "fetchCloudTasks (network ?ok) (cleanId (inputCloudId typingState)) = Inr ?nf"
    by (simp add: envOf_def fetch_status_404)
  have f2: "fetchCloudTasks (network ?ko) (cleanId (inputCloudId typingState)) = Inr ?nf"
    by (simp add: envOf_def fetch_status_404)
  have found: "success ?nf" and marker: "error ?nf = Some NOT_FOUND"
    by simp_all
  have u1: "updateCloudTasks (network ?ok) (cleanId (inputCloudId typingState))
        (tasks typingState)
      = Inr \<lparr>success = True, data = None, error = None\<rparr>"
    by (simp add: envOf_def update_status response_ok_def)
  have u2: "updateCloudTasks (network ?ko) (cleanId (inputCloudId typingState))
        (tasks typingState)
      = Inr \<lparr>success = False, data = None, error = Some msgSaveFailed\<rparr>"
    by (simp add: envOf_def update_status response_ok_def)
  show ?thesis
    using f1 u1 u2
      connect_creates_bucket [OF typing_facts(1,2) f1 found marker]
      connect_creates_bucket [OF typing_facts(1,2) f2 found marker]
    by (simp add: typing_facts)
qed

text \<open>
  Claim C6, where it fails.  The empty identifier has a normalised form of length 0,
  and connect shows no error for it: the handler returns at its first line, with no
  effect at all.
\<close>

theorem connect_empty_input_silent_counterexample:
  "length (cleanId (inputCloudId initialState)) < 3
   \<and> snd (handleConnectCloud (envOf netDown False 0) initialState) = []"
  by (simp add: initialState_def handleConnectCloud_def cleanId_def trim_def toLowerCase_def
      replaceDisallowed_def)

text \<open>
  Claim C6, amended.  For every raw identifier whose normalised form is shorter than 3,
  connect makes no network call and changes no state (bucket id, status, collection
  and storage are what they were); it shows the minimum-length error when the raw
  identifier is not empty, and nothing when it is empty.
\<close>

theorem connect_rejects_short_id:
  "length (cleanId (inputCloudId s)) < 3 \<Longrightarrow>
   handleConnectCloud e s = (s, if inputCloudId s = [] then [] else [Alert AlertMinLength])"
  by (simp add: handleConnectCloud_def Let_def)

text \<open>The amended claim C6 on the connected session, with \<open>ab\<close> typed into the dialog.\<close>

theorem connect_rejects_short_id_witness:
  "length (cleanId (inputCloudId (connectedState\<lparr>inputCloudId := js_of ''ab''\<rparr>))) < 3
   \<and> handleConnectCloud (envOf netDown True 0) (connectedState\<lparr>inputCloudId := js_of ''ab''\<rparr>)
       = (connectedState\<lparr>inputCloudId := js_of ''ab''\<rparr>, [Alert AlertMinLength])"
proof -
  let ?s = "connectedState\<lparr>inputCloudId := js_of ''ab''\<rparr>"
  have short: "length (cleanId (inputCloudId ?s)) < 3"
    by (simp add: cleanId_ab) (simp add: js_of_def)
  have typed: "inputCloudId ?s \<noteq> []"
    by (simp add: js_of_def)
  show ?thesis
    using short typed connect_rejects_short_id [OF short, of "envOf netDown True 0"]
    by simp
qed

text \<open>
  Claim C8, where it fails.  The user answers the confirmation of disconnect with no:
  the bucket id is still active and stored, and the status is still online.
\<close>

theorem disconnect_declined_counterexample:
  "cloudId (fst (handleDisconnectCloud (envOf netDown False 0) connectedState))
     = Some (js_of ''fabrika'')
   \<and> localStorage (fst (handleDisconnectCloud (envOf netDown False 0) connectedState))
        ''hidro_cloud_id''
     = Some (js_of ''fabrika'')
   \<and> syncStatus (fst (handleDisconnectCloud (envOf netDown False 0) connectedState)) = Online"
  by (simp add: handleDisconnectCloud_def envOf_def connectedState_def initialState_def)

text \<open>
  Claim C8, amended.  Disconnect asks for confirmation.  When the user confirms, it
  clears the active bucket id, removes \<open>hidro_cloud_id\<close> from the storage (and touches
  no other key), sets the status to offline and leaves the task collection unchanged,
  and a poll of the resulting state makes no fetch.  When the user declines, the state
  is unchanged.
\<close>

theorem disconnect_when_confirmed:
  "(confirm e ConfirmDisconnect \<longrightarrow>
      cloudId (fst (handleDisconnectCloud e s)) = None
    \<and> localStorage (fst (handleDisconnectCloud e s)) ''hidro_cloud_id'' = None
    \<and> (\<forall>k. k \<noteq> ''hidro_cloud_id'' \<longrightarrow>
          localStorage (fst (handleDisconnectCloud e s)) k = localStorage s k)
    \<and> syncStatus (fst (handleDisconnectCloud e s)) = Offline
    \<and> tasks (fst (handleDisconnectCloud e s)) = tasks s
    \<and> snd (poll e' (fst (handleDisconnectCloud e s))) = [])
   \<and> (\<not> confirm e ConfirmDisconnect \<longrightarrow> fst (handleDisconnectCloud e s) = s)
   \<and> snd (handleDisconnectCloud e s) = [Confirm ConfirmDisconnect]"
  by (simp add: handleDisconnectCloud_def poll_def)

text \<open>The amended claim C8 on the connected session, confirmed and declined.\<close>

theorem disconnect_when_confirmed_witness:
  "confirm (envOf netDown True 0) ConfirmDisconnect
   \<and> cloudId (fst (handleDisconnectCloud (envOf netDown True 0) connectedState)) = None
   \<and> localStorage (fst (handleDisconnectCloud (envOf netDown True 0) connectedState))
        ''hidro_cloud_id'' = None
   \<and> syncStatus (fst (handleDisconnectCloud (envOf netDown True 0) connectedState)) = Offline
   \<and> tasks (fst (handleDisconnectCloud (envOf netDown True 0) connectedState)) = [taskCreated]
   \<and> \<not> confirm (envOf netDown False 0) ConfirmDisconnect
   \<and> fst (handleDisconnectCloud (envOf netDown False 0) connectedState) = connectedState"
proof -
  have yes: "confirm (envOf netDown True 0) ConfirmDisconnect"
    by (simp add: envOf_def)
  have no: "\<not> confirm (envOf netDown False 0) ConfirmDisconnect"
    by (simp add: envOf_def)
  show ?thesis
    using yes no
      disconnect_when_confirmed [of "envOf netDown True 0" connectedState]
      disconnect_when_confirmed [of "envOf netDown False 0" connectedState]
    by (simp add: connected_facts)
qed

text \<open>
  Claim C10.  When the fetch of connect succeeds with a collection that is not empty
  and the user declines to load it, the handler makes no further call, the local
  collection is unchanged, and still the normalised id becomes the active bucket id,
  is stored, and the status becomes online.  A later poll that fetches the same
  collection then replaces the local one, as soon as the two serialise differently.
\<close>

theorem connect_declined_still_connects:
  assumes "inputCloudId s \<noteq> []" and "3 \<le> length (cleanId (inputCloudId s))"
    and "fetchCloudTasks (network e) (cleanId (inputCloudId s)) = Inr res"
    and "data res = Some remote" and "remote \<noteq> []"
    and "\<not> confirm e ConfirmLoadRemote"
  shows "snd (handleConnectCloud e s)
           = [CallFetch (cleanId (inputCloudId s)), Confirm ConfirmLoadRemote]
    \<and> tasks (fst (handleConnectCloud e s)) = tasks s
    \<and> cloudId (fst (handleConnectCloud e s)) = Some (cleanId (inputCloudId s))
    \<and> localStorage (fst (handleConnectCloud e s)) ''hidro_cloud_id''
        = Some (cleanId (inputCloudId s))
    \<and> syncStatus (fst (handleConnectCloud e s)) = Online
    \<and> (\<forall>e'. fetchCloudTasks (network e') (cleanId (inputCloudId s)) = Inr res
             \<and> JSON_stringify (JArr remote) \<noteq> JSON_stringify (JArr (tasks s)) \<longrightarrow>
          tasks (fst (poll e' (fst (handleConnectCloud e s)))) = remote)"
proof -
  let ?cid = "cleanId (inputCloudId s)"
  let ?s1 = "s\<lparr>syncStatus := Syncing\<rparr>"
  have ok: "success res \<and> error res = None"
    using assms(3-5) by (rule fetch_data_nonempty)
  have cid: "?cid \<noteq> []"
    using assms(2) by auto
  have after: "connectAfterFetch e ?cid (tasks s) res ?s1
      = (connectSuccess ?cid ?s1, [Confirm ConfirmLoadRemote])"
    using ok assms(4-6) by (simp add: connectAfterFetch_def)
  have run: "handleConnectCloud e s
      = (connectSuccess ?cid ?s1, [CallFetch ?cid, Confirm ConfirmLoadRemote])"
    using connect_valid [OF assms(1-3)] after by simp
  have later: "tasks (fst (poll e' (connectSuccess ?cid ?s1))) = remote"
    if "fetchCloudTasks (network e') ?cid = Inr res"
      and "JSON_stringify (JArr remote) \<noteq> JSON_stringify (JArr (tasks s))" for e'
    using that ok cid assms(4,5)
    by (simp add: poll_def pollThen_def connectSuccess_def Let_def)
  show ?thesis
    using run later by (simp add: connectSuccess_def)
qed

text \<open>
  Claim C10 on a bucket that holds another task: the user declines, and the next poll
  replaces the local collection all the same.
\<close>

theorem connect_declined_still_connects_witness:
  "fetchCloudTasks (network (envOf (netServing (JArr [taskOther])) False 3))
       (cleanId (inputCloudId typingState))
      = Inr \<lparr>success = True, data = Some [taskOther], error = None\<rparr>
   \<and> \<not> confirm (envOf (netServing (JArr [taskOther])) False 3) ConfirmLoadRemote
   \<and> tasks (fst (handleConnectCloud (envOf (netServing (JArr [taskOther])) False 3)
        typingState)) = [taskCreated]
   \<and> cloudId (fst (handleConnectCloud (envOf (netServing (JArr [taskOther])) False 3)
        typingState)) = Some (js_of ''erkan-usta-'')
   \<and> localStorage (fst (handleConnectCloud (envOf (netServing (JArr [taskOther])) False 3)
        typingState)) ''hidro_cloud_id'' = Some (js_of ''erkan-usta-'')
   \<and> syncStatus (fst (handleConnectCloud (envOf (netServing (JArr [taskOther])) False 3)
        typingState)) = Online
   \<and> tasks (fst (poll (envOf (netServing (JArr [taskOther])) False 4)
        (fst (handleConnectCloud (envOf (netServing (JArr [taskOther])) False 3)
           typingState)))) = [taskOther]"
proof -
  let ?e = "envOf (netServing (JArr [taskOther])) False 3"
  let ?e' = "envOf (netServing (JArr [taskOther])) False 4"
  let ?res = "\<lparr>success = True, data = Some [taskOther], error = None\<rparr>"
  have fetched: "fetchCloudTasks (network ?e) (cleanId (inputCloudId typingState)) = Inr ?res"
    by (simp add: envOf_def fetch_serving)
  have again: "fetchCloudTasks (network ?e') (cleanId (inputCloudId typingState)) = Inr ?res"
    by (simp add: envOf_def fetch_serving)
  have held: "data ?res = Some [taskOther]" and some: "[taskOther] \<noteq> []"
    by simp_all
  have declined: "\<not> confirm ?e ConfirmLoadRemote"
    by (simp add: envOf_def)
  show ?thesis
    using fetched declined again stringify_other_created
      connect_declined_still_connects [OF typing_facts(1,2) fetched held some declined]
    by (simp add: typing_facts)
qed

end
